theory Spec2Isabelle
  imports Main
begin

section \<open>The Dapp component of the Vue boilerplate\<close>

text \<open>
  This theory embeds the script part of \<^verbatim>\<open>src/frontend/src/components/Dapp.vue\<close>:
  the component's reactive data, its methods, the two wallet event handlers that
  \<^verbatim>\<open>connectWallet\<close> registers, and the conditions of its template.

  The component talks to three outside parties: the injected wallet
  (\<^verbatim>\<open>window.ethereum\<close>), the token contract bound through ethers, and the browser's
  interval timers. Their answers are not computed by the component, so they are
  parameters of the model: every awaited call takes the way it settles as an argument
  (\<open>Inl\<close> a thrown or rejected error object, \<open>Inr\<close> the resolved value). The calls
  the component issues are appended to a log, in the order in which it issues them.
\<close>

subsection \<open>JavaScript values\<close>

text \<open>
  The caught \<^verbatim>\<open>error\<close> is inspected dynamically (\<^verbatim>\<open>error.code\<close>,
  \<^verbatim>\<open>error.data\<close>, \<^verbatim>\<open>error.message\<close>) and stored as it is, so errors are
  untyped JavaScript values. An object is the list of its own properties.
  What ethers and the wallet throw are error objects; a thrown value is therefore an
  object throughout.
\<close>

datatype js_value =
    JUndefined
  | JNull
  | JBoolean bool
  | JNumber int
  | JString string
  | JObject "(string \<times> js_value) list"

type_synonym js_object = "(string \<times> js_value) list"

text \<open>The truth value JavaScript gives a value in \<^verbatim>\<open>if (v)\<close>.\<close>

fun truthy :: "js_value \<Rightarrow> bool" where
  "truthy JUndefined = False"
| "truthy JNull = False"
| "truthy (JBoolean b) = b"
| "truthy (JNumber n) = (n \<noteq> 0)"
| "truthy (JString s) = (s \<noteq> [])"
| "truthy (JObject ob) = True"

text \<open>\<^verbatim>\<open>ob.k\<close> on an object: a property that is missing reads as \<^verbatim>\<open>undefined\<close>.\<close>

definition js_get :: "js_object \<Rightarrow> string \<Rightarrow> js_value" where
  "js_get ob k = (case map_of ob k of None \<Rightarrow> JUndefined | Some v \<Rightarrow> v)"

text \<open>
  \<^verbatim>\<open>v.k\<close> on any value, for the property names the component reads (none of them
  is a property of a number, a string or a boolean): \<open>None\<close> is the TypeError that
  JavaScript throws on \<^verbatim>\<open>undefined\<close> and \<^verbatim>\<open>null\<close>.
\<close>

fun member :: "js_value \<Rightarrow> string \<Rightarrow> js_value option" where
  "member JUndefined k = None"
| "member JNull k = None"
| "member (JObject ob) k = Some (js_get ob k)"
| "member v k = Some JUndefined"

text \<open>\<^verbatim>\<open>new Error(msg)\<close>: an object whose only own property read here is its message.\<close>

definition Error :: "string \<Rightarrow> js_object" where
  "Error msg = [(''message'', JString msg)]"

subsection \<open>Constants and component data\<close>

definition HARDHAT_NETWORK_ID :: string where
  "HARDHAT_NETWORK_ID = ''1337''"

definition ERROR_CODE_TX_REJECTED_BY_USER :: int where
  "ERROR_CODE_TX_REJECTED_BY_USER = 4001"

record token_data =
  name :: string
  symbol :: string

text \<open>
  The six reactive fields that \<^verbatim>\<open>initialData()\<close> returns. \<open>None\<close> is
  \<^verbatim>\<open>undefined\<close>. The balance is an ethers BigNumber, an unbounded integer.
  \<^verbatim>\<open>transactionError\<close> holds whatever the catch block stores, \<open>JUndefined\<close> when unset.
\<close>

record dapp_data =
  tokenData :: "token_data option"
  selectedAddress :: "string option"
  balance :: "int option"
  txBeingSent :: "string option"
  transactionError :: js_value
  networkError :: "string option"

definition initialData :: dapp_data where
  "initialData =
     \<lparr> tokenData = None, selectedAddress = None, balance = None,
       txBeingSent = None, transactionError = JUndefined, networkError = None \<rparr>"

subsection \<open>The component in its browser\<close>

text \<open>Calls issued to the wallet and to the token contract.\<close>

datatype call =
    EnableCall
  | NameCall
  | SymbolCall
  | BalanceOfCall "string option"
  | TransferCall string int
  | WaitCall string

text \<open>The two callbacks given to \<^verbatim>\<open>window.ethereum.on\<close>.\<close>

datatype listener = AccountsChangedListener | NetworkChangedListener

text \<open>
  \<open>data\<close> is \<^verbatim>\<open>this.$data\<close>; \<open>pollDataInterval\<close> is the plain instance property
  \<^verbatim>\<open>this.pollDataInterval\<close>, which is not part of \<^verbatim>\<open>$data\<close>. The rest is the
  browser: the active interval timers as pairs of handle and period in milliseconds
  (the only callback ever installed is \<^verbatim>\<open>() => this.updateBalance()\<close>), the next
  fresh handle, the listeners registered on the wallet, the wallet's
  \<^verbatim>\<open>networkVersion\<close>, and the log of issued calls.
  The ethers bindings \<^verbatim>\<open>this.provider\<close> and \<^verbatim>\<open>this.token\<close> are built from
  constants and carry no state of their own; they are not represented.
\<close>

record dapp =
  data :: dapp_data
  pollDataInterval :: "nat option"
  timers :: "(nat \<times> nat) list"
  next_timer :: nat
  listeners :: "listener list"
  networkVersion :: "string option"
  calls :: "call list"

text \<open>A freshly created component in a page where nothing has run yet.\<close>

definition fresh :: "string option \<Rightarrow> dapp" where
  "fresh nv =
     \<lparr> data = initialData, pollDataInterval = None, timers = [], next_timer = 0,
       listeners = [], networkVersion = nv, calls = [] \<rparr>"

definition issue :: "call \<Rightarrow> dapp \<Rightarrow> dapp" where
  "issue c s = s\<lparr>calls := calls s @ [c]\<rparr>"

text \<open>
  \<^verbatim>\<open>setInterval\<close> installs a timer under a fresh handle and returns the handle.
  \<^verbatim>\<open>clearInterval\<close> removes the timer with the given handle; on \<^verbatim>\<open>undefined\<close>
  it does nothing.
\<close>

definition setInterval :: "nat \<Rightarrow> dapp \<Rightarrow> nat \<times> dapp" where
  "setInterval ms s =
     (next_timer s,
      s\<lparr>timers := timers s @ [(next_timer s, ms)], next_timer := Suc (next_timer s)\<rparr>)"

definition clearInterval :: "nat option \<Rightarrow> dapp \<Rightarrow> dapp" where
  "clearInterval h s =
     (case h of
        None \<Rightarrow> s
      | Some t \<Rightarrow> s\<lparr>timers := filter (\<lambda>(i, ms). i \<noteq> t) (timers s)\<rparr>)"

subsection \<open>Methods\<close>

text \<open>
  An async method runs synchronously up to its first \<^verbatim>\<open>await\<close>. A method that a
  caller does not await is therefore modelled in two parts: what it does before the
  await (\<open>_issue\<close>) and what it does once the awaited call has resolved
  (\<open>_resolved\<close>).
\<close>

text \<open>\<^verbatim>\<open>this.balance = await this.token.balanceOf(this.selectedAddress)\<close>\<close>

definition updateBalance_issue :: "dapp \<Rightarrow> dapp" where
  "updateBalance_issue s = issue (BalanceOfCall (selectedAddress (data s))) s"

definition updateBalance_resolved :: "int \<Rightarrow> dapp \<Rightarrow> dapp" where
  "updateBalance_resolved v s = s\<lparr>data := (data s)\<lparr>balance := Some v\<rparr>\<rparr>"

text \<open>
  \<^verbatim>\<open>getTokenData\<close>: \<^verbatim>\<open>name()\<close> is called at once, \<^verbatim>\<open>symbol()\<close> when the name
  has arrived, and \<^verbatim>\<open>tokenData\<close> is stored when the symbol has arrived.
\<close>

definition getTokenData_issue :: "dapp \<Rightarrow> dapp" where
  "getTokenData_issue s = issue NameCall s"

definition getTokenData_name_resolved :: "dapp \<Rightarrow> dapp" where
  "getTokenData_name_resolved s = issue SymbolCall s"

definition getTokenData_symbol_resolved :: "string \<Rightarrow> string \<Rightarrow> dapp \<Rightarrow> dapp" where
  "getTokenData_symbol_resolved n sy s =
     s\<lparr>data := (data s)\<lparr>tokenData := Some \<lparr>name = n, symbol = sy\<rparr>\<rparr>\<rparr>"

text \<open>
  \<^verbatim>\<open>intializeEthers\<close> (the source's spelling) contains no await and only builds
  the provider and contract bindings: no modelled field changes and no call is issued.
\<close>

definition intializeEthers :: "dapp \<Rightarrow> dapp" where
  "intializeEthers s = s"

definition startPollingData :: "dapp \<Rightarrow> dapp" where
  "startPollingData s =
     (let (h, s1) = setInterval 1000 s;
          s2 = s1\<lparr>pollDataInterval := Some h\<rparr>
      in updateBalance_issue s2)"

definition stopPollingData :: "dapp \<Rightarrow> dapp" where
  "stopPollingData s =
     (let s1 = clearInterval (pollDataInterval s) s
      in s1\<lparr>pollDataInterval := None\<rparr>)"

text \<open>What the browser does when the period of an active timer has elapsed.\<close>

definition interval_elapsed :: "nat \<Rightarrow> dapp \<Rightarrow> dapp" where
  "interval_elapsed h s =
     (if h \<in> fst ` set (timers s) then updateBalance_issue s else s)"

definition initialize :: "string option \<Rightarrow> dapp \<Rightarrow> dapp" where
  "initialize userAddress s =
     (let s1 = s\<lparr>data := (data s)\<lparr>selectedAddress := userAddress\<rparr>\<rparr>;
          s2 = intializeEthers s1;
          s3 = getTokenData_issue s2
      in startPollingData s3)"

definition dismissTransactionError :: "dapp \<Rightarrow> dapp" where
  "dismissTransactionError s = s\<lparr>data := (data s)\<lparr>transactionError := JUndefined\<rparr>\<rparr>"

definition dismissNetworkError :: "dapp \<Rightarrow> dapp" where
  "dismissNetworkError s = s\<lparr>data := (data s)\<lparr>networkError := None\<rparr>\<rparr>"

text \<open>\<^verbatim>\<open>Object.assign(this.$data, initialData())\<close> overwrites all six fields.\<close>

definition resetState :: "dapp \<Rightarrow> dapp" where
  "resetState s = s\<lparr>data := initialData\<rparr>"

text \<open>
  \<^verbatim>\<open>checkNetwork\<close> returns its verdict and, on a mismatch, has stored the message.
\<close>

definition checkNetwork :: "dapp \<Rightarrow> bool \<times> dapp" where
  "checkNetwork s =
     (if networkVersion s = Some HARDHAT_NETWORK_ID then (True, s)
      else (False,
            s\<lparr>data := (data s)\<lparr>networkError :=
                 Some ''Please connect Metamask to Localhost:8545''\<rparr>\<rparr>))"

text \<open>
  The handlers registered by \<^verbatim>\<open>connectWallet\<close>. The accounts-changed handler
  destructures the first element of the array it is given; that element is
  \<^verbatim>\<open>undefined\<close> exactly when the array is empty.
\<close>

definition accountsChanged_handler :: "string list \<Rightarrow> dapp \<Rightarrow> dapp" where
  "accountsChanged_handler accounts s =
     (let s1 = stopPollingData s
      in case accounts of
           [] \<Rightarrow> resetState s1
         | newAddress # rest \<Rightarrow> initialize (Some newAddress) s1)"

definition networkChanged_handler :: "dapp \<Rightarrow> dapp" where
  "networkChanged_handler s =
     (let s1 = stopPollingData s
      in resetState s1)"

text \<open>How an async method ends: its promise is fulfilled, or rejected with an error.\<close>

datatype completion = Fulfilled | Rejected js_object

text \<open>
  \<^verbatim>\<open>connectWallet\<close>. Before its await it asks the wallet for the accounts
  (\<open>connectWallet_issue\<close>); \<open>connectWallet_resolved\<close> is the rest of the method,
  run when \<^verbatim>\<open>window.ethereum.enable()\<close> has resolved with the accounts.
  \<open>connectWallet\<close> is one whole call, given how \<^verbatim>\<open>enable()\<close> settles: when
  it rejects, the method stops there and its own promise rejects.
\<close>

definition connectWallet_issue :: "dapp \<Rightarrow> dapp" where
  "connectWallet_issue s = issue EnableCall s"

definition connectWallet_resolved :: "string list \<Rightarrow> dapp \<Rightarrow> dapp" where
  "connectWallet_resolved accounts s =
     (let selected = (case accounts of [] \<Rightarrow> None | a # rest \<Rightarrow> Some a);
          (ok, s1) = checkNetwork s
      in if \<not> ok then s1
         else
           (let s2 = initialize selected s1;
                s3 = s2\<lparr>listeners := listeners s2 @ [AccountsChangedListener]\<rparr>
            in s3\<lparr>listeners := listeners s3 @ [NetworkChangedListener]\<rparr>))"

definition connectWallet :: "js_object + string list \<Rightarrow> dapp \<Rightarrow> completion \<times> dapp" where
  "connectWallet r_enable s =
     (let s0 = connectWallet_issue s
      in case r_enable of
           Inl error \<Rightarrow> (Rejected error, s0)
         | Inr accounts \<Rightarrow> (Fulfilled, connectWallet_resolved accounts s0))"

text \<open>
  \<^verbatim>\<open>transferTokens\<close>. The catch block, the finally block, and the part of the try
  block that runs before the first await are named, so that the state in which the
  transfer is submitted can be spoken about.
  \<^verbatim>\<open>console.error\<close> only prints and is left out.
\<close>

definition transferTokens_catch :: "js_object \<Rightarrow> dapp \<Rightarrow> dapp" where
  "transferTokens_catch error s =
     (if js_get error ''code'' = JNumber ERROR_CODE_TX_REJECTED_BY_USER then s
      else s\<lparr>data := (data s)\<lparr>transactionError := JObject error\<rparr>\<rparr>)"

definition transferTokens_finally :: "dapp \<Rightarrow> dapp" where
  "transferTokens_finally s = s\<lparr>data := (data s)\<lparr>txBeingSent := None\<rparr>\<rparr>"

definition transferTokens_submit :: "string \<Rightarrow> int \<Rightarrow> dapp \<Rightarrow> dapp" where
  "transferTokens_submit to amount s =
     (let s1 = dismissTransactionError s
      in issue (TransferCall to amount) s1)"

text \<open>
  The method from its first await on, up to the end of the try and catch blocks, given
  how \<^verbatim>\<open>token.transfer\<close> settles (with the transaction's hash), how
  \<^verbatim>\<open>tx.wait()\<close> settles (with the receipt's status, which ethers declares
  optional) and how \<^verbatim>\<open>token.balanceOf\<close> settles. A result that the method
  never gets to ask for is ignored.
\<close>

definition transferTokens_settled ::
  "js_object + string \<Rightarrow> js_object + int option \<Rightarrow> js_object + int \<Rightarrow> dapp \<Rightarrow> dapp" where
  "transferTokens_settled r_transfer r_wait r_balance s1 =
     (case r_transfer of
        Inl error \<Rightarrow> transferTokens_catch error s1
      | Inr tx_hash \<Rightarrow>
          (let s2 = s1\<lparr>data := (data s1)\<lparr>txBeingSent := Some tx_hash\<rparr>\<rparr>;
               s3 = issue (WaitCall tx_hash) s2
           in case r_wait of
                Inl error \<Rightarrow> transferTokens_catch error s3
              | Inr status \<Rightarrow>
                  if status = Some 0
                  then transferTokens_catch (Error ''Transaction failed'') s3
                  else
                    (let s4 = updateBalance_issue s3
                     in case r_balance of
                          Inl error \<Rightarrow> transferTokens_catch error s4
                        | Inr v \<Rightarrow> updateBalance_resolved v s4)))"

text \<open>The whole method: the submission, the rest of try and catch, then finally.\<close>

definition transferTokens ::
  "string \<Rightarrow> int \<Rightarrow> js_object + string \<Rightarrow> js_object + int option \<Rightarrow> js_object + int
     \<Rightarrow> dapp \<Rightarrow> dapp" where
  "transferTokens to amount r_transfer r_wait r_balance s =
     (let s1 = transferTokens_submit to amount s;
          s2 = transferTokens_settled r_transfer r_wait r_balance s1
      in transferTokens_finally s2)"

text \<open>
  \<^verbatim>\<open>getRpcErrorMessage\<close>. \<open>None\<close> would be a TypeError from reading
  \<^verbatim>\<open>.message\<close> of \<^verbatim>\<open>undefined\<close> or \<^verbatim>\<open>null\<close>.
\<close>

definition getRpcErrorMessage :: "js_object \<Rightarrow> js_value option" where
  "getRpcErrorMessage error =
     (if truthy (js_get error ''data'') then member (js_get error ''data'') ''message''
      else Some (js_get error ''message''))"

text \<open>
  \<^verbatim>\<open>BigNumber.from\<close> throws on \<^verbatim>\<open>undefined\<close> (\<open>None\<close>) and returns a
  BigNumber unchanged.
\<close>

definition balanceZero :: "dapp \<Rightarrow> bool option" where
  "balanceZero s = (case balance (data s) of None \<Rightarrow> None | Some b \<Rightarrow> Some (b = 0))"

definition balanceGreaterZero :: "dapp \<Rightarrow> bool option" where
  "balanceGreaterZero s = (case balance (data s) of None \<Rightarrow> None | Some b \<Rightarrow> Some (b > 0))"

subsection \<open>The template\<close>

text \<open>
  The \<^verbatim>\<open>v-if\<close> chain of the template, for a page in which a wallet is injected
  (\<^verbatim>\<open>checkForWallet\<close> is false). An address is a string, falsy when empty; objects
  (the token data, a BigNumber) are always truthy. The last screen carries the four
  independent \<^verbatim>\<open>v-if\<close> conditions inside it.
\<close>

record dapp_screen =
  WaitingForTransactionMessage :: bool
  TransactionErrorMessage :: bool
  NoTokensMessage :: bool
  Transfer :: bool

datatype screen = ConnectWallet | Loading | Loaded dapp_screen

definition render :: "dapp \<Rightarrow> screen" where
  "render s =
     (if selectedAddress (data s) = None \<or> selectedAddress (data s) = Some [] then ConnectWallet
      else if tokenData (data s) = None \<or> balance (data s) = None then Loading
      else Loaded
        \<lparr> WaitingForTransactionMessage =
            (txBeingSent (data s) \<noteq> None \<and> txBeingSent (data s) \<noteq> Some []),
          TransactionErrorMessage = truthy (transactionError (data s)),
          NoTokensMessage = (balanceZero s = Some True),
          Transfer = (balanceGreaterZero s = Some True) \<rparr>)"

subsection \<open>Concrete situations\<close>

text \<open>Inputs on which the theorems below are evaluated.\<close>

definition hardhat_account :: string where
  "hardhat_account = ''0x70997970c51812dc3a010c7d01b50e0d17dc79c8''"

definition other_account :: string where
  "other_account = ''0x3c44cdddb6a900fa2b585dd299e03d12fa4293bc''"

text \<open>The error of a wallet in which the user has declined to sign.\<close>

definition user_rejected_error :: js_object where
  "user_rejected_error =
     [(''code'', JNumber 4001),
      (''message'', JString ''User denied transaction signature.'')]"

text \<open>A JSON-RPC error that wraps the node's own diagnosis in its data.\<close>

definition rpc_error :: js_object where
  "rpc_error =
     [(''code'', JNumber (- 32603)),
      (''message'', JString ''Internal JSON-RPC error.''),
      (''data'', JObject [(''code'', JNumber 3), (''message'', JString ''Not enough tokens'')])]"

text \<open>
  A component that has connected on the expected network and whose token data and
  first balance have arrived.
\<close>

definition connected :: dapp where
  "connected =
     updateBalance_resolved 100
       (getTokenData_symbol_resolved ''My Hardhat Token'' ''MHT''
         (getTokenData_name_resolved
           (snd (connectWallet (Inr [hardhat_account]) (fresh (Some HARDHAT_NETWORK_ID))))))"

text \<open>An ethers error: its code is a string and it has no data.\<close>

definition ethers_error :: js_object where
  "ethers_error =
     [(''code'', JString ''UNPREDICTABLE_GAS_LIMIT''),
      (''message'', JString ''cannot estimate gas'')]"

text \<open>
  The wallet is on another network when the user first connects; the user then switches
  the wallet to the expected network and connects again.
\<close>

definition wrong_network :: dapp where
  "wrong_network = snd (connectWallet (Inr [hardhat_account]) (fresh (Some ''1'')))"

definition retried :: dapp where
  "retried =
     snd (connectWallet (Inr [hardhat_account])
            (wrong_network\<lparr>networkVersion := Some HARDHAT_NETWORK_ID\<rparr>))"

text \<open>
  The user clicks the connect button twice before the wallet has answered the first
  request; the wallet then answers both.
\<close>

definition first_click :: dapp where
  "first_click = connectWallet_issue (fresh (Some HARDHAT_NETWORK_ID))"

definition second_click :: dapp where
  "second_click = connectWallet_issue first_click"

definition first_answer :: dapp where
  "first_answer = connectWallet_resolved [hardhat_account] second_click"

definition second_answer :: dapp where
  "second_answer = connectWallet_resolved [hardhat_account] first_answer"

text \<open>
  What \<^verbatim>\<open>tx.wait()\<close> of ethers version 5 rejects with when the mined transaction's
  receipt has status 0: ethers itself throws on such a receipt, with the receipt
  attached to the error.
\<close>

definition call_exception_error :: js_object where
  "call_exception_error =
     [(''reason'', JString ''transaction failed''),
      (''code'', JString ''CALL_EXCEPTION''),
      (''receipt'', JObject [(''status'', JNumber 0)]),
      (''message'', JString ''transaction failed (code=CALL_EXCEPTION)'')]"

text \<open>
  A wallet error whose data wraps the node's error one level further down, so that the
  data itself has no message.
\<close>

definition wrapped_error :: js_object where
  "wrapped_error =
     [(''code'', JNumber (- 32603)),
      (''message'', JString ''Internal JSON-RPC error.''),
      (''data'', JObject
         [(''originalError'', JObject
            [(''code'', JNumber 3), (''message'', JString ''execution reverted'')])])]"

subsection \<open>The invariant of the data model\<close>

text \<open>
  The invariant that the specification states for the data: without a session there is
  no token snapshot, no balance reading and no pending transaction.
\<close>

definition session_invariant :: "dapp_data \<Rightarrow> bool" where
  "session_invariant d =
     (selectedAddress d = None \<longrightarrow>
        tokenData d = None \<and> balance d = None \<and> txBeingSent d = None)"

section \<open>Properties\<close>

lemmas method_defs =
  issue_def setInterval_def clearInterval_def updateBalance_issue_def
  updateBalance_resolved_def getTokenData_issue_def getTokenData_name_resolved_def
  getTokenData_symbol_resolved_def intializeEthers_def startPollingData_def
  stopPollingData_def initialize_def dismissTransactionError_def
  resetState_def checkNetwork_def accountsChanged_handler_def networkChanged_handler_def
  connectWallet_issue_def connectWallet_resolved_def connectWallet_def
  transferTokens_catch_def transferTokens_finally_def transferTokens_submit_def
  transferTokens_settled_def transferTokens_def

lemmas example_defs =
  hardhat_account_def other_account_def connected_def fresh_def initialData_def
  HARDHAT_NETWORK_ID_def ERROR_CODE_TX_REJECTED_BY_USER_def Error_def js_get_def

subsection \<open>Submitting a transfer\<close>

text \<open>
  C1. However the three awaited calls of \<^verbatim>\<open>transferTokens\<close> settle (the transfer
  is refused or throws, the wait throws, the receipt reports failure, the balance read
  throws, or all succeed), \<^verbatim>\<open>txBeingSent\<close> is undefined when the method is done.
  A \<^verbatim>\<open>transactionError\<close> left by an earlier attempt is cleared before the transfer
  is submitted: the method is its submission step followed by the rest, the submission
  step ends with the transfer call issued in a state where \<^verbatim>\<open>transactionError\<close> is
  unset, and that call is the first the method issues. So nothing of the earlier error
  survives: the whole method ends in the same state whatever error was stored before,
  and after a transfer that succeeds \<^verbatim>\<open>transactionError\<close> is unset.
\<close>

theorem transferTokens_clears_pending:
  assumes mined: "status \<noteq> Some 0"
  shows
   "txBeingSent (data (transferTokens to amount r_transfer r_wait r_balance s)) = None
    \<and> transferTokens to amount r_transfer r_wait r_balance s
        = transferTokens_finally
            (transferTokens_settled r_transfer r_wait r_balance
              (transferTokens_submit to amount s))
    \<and> transactionError (data (transferTokens_submit to amount s)) = JUndefined
    \<and> calls (transferTokens_submit to amount s) = calls s @ [TransferCall to amount]
    \<and> (\<exists>later. calls (transferTokens to amount r_transfer r_wait r_balance s)
          = calls s @ TransferCall to amount # later)
    \<and> transferTokens to amount r_transfer r_wait r_balance
          (s\<lparr>data := (data s)\<lparr>transactionError := stale\<rparr>\<rparr>)
        = transferTokens to amount r_transfer r_wait r_balance
          (s\<lparr>data := (data s)\<lparr>transactionError := JUndefined\<rparr>\<rparr>)
    \<and> transactionError (data (transferTokens to amount (Inr h) (Inr status) (Inr v)
          (s\<lparr>data := (data s)\<lparr>transactionError := stale\<rparr>\<rparr>))) = JUndefined"
proof -
  have pending: "txBeingSent (data (transferTokens to amount r_transfer r_wait r_balance s)) = None"
    by (simp add: transferTokens_def transferTokens_finally_def Let_def)
  have parts: "transferTokens to amount r_transfer r_wait r_balance s
      = transferTokens_finally
          (transferTokens_settled r_transfer r_wait r_balance
            (transferTokens_submit to amount s))"
    by (simp add: transferTokens_def Let_def)
  have submit: "transactionError (data (transferTokens_submit to amount s)) = JUndefined
      \<and> calls (transferTokens_submit to amount s) = calls s @ [TransferCall to amount]"
    by (simp add: transferTokens_submit_def dismissTransactionError_def issue_def Let_def)
  have first: "\<exists>later. calls (transferTokens to amount r_transfer r_wait r_balance s)
      = calls s @ TransferCall to amount # later"
    by (simp add: method_defs Let_def split: sum.splits)
  have same_submit: "transferTokens_submit to amount
        (s\<lparr>data := (data s)\<lparr>transactionError := stale\<rparr>\<rparr>)
      = transferTokens_submit to amount
        (s\<lparr>data := (data s)\<lparr>transactionError := JUndefined\<rparr>\<rparr>)"
    by (simp add: transferTokens_submit_def dismissTransactionError_def issue_def Let_def)
  have same: "transferTokens to amount r_transfer r_wait r_balance
        (s\<lparr>data := (data s)\<lparr>transactionError := stale\<rparr>\<rparr>)
      = transferTokens to amount r_transfer r_wait r_balance
        (s\<lparr>data := (data s)\<lparr>transactionError := JUndefined\<rparr>\<rparr>)"
    by (simp add: transferTokens_def same_submit Let_def)
  have success: "transactionError (data (transferTokens to amount (Inr h) (Inr status) (Inr v)
        (s\<lparr>data := (data s)\<lparr>transactionError := stale\<rparr>\<rparr>))) = JUndefined"
    using mined by (simp add: method_defs Let_def)
  from pending parts submit first same success show ?thesis by blast
qed

theorem transferTokens_clears_pending_witness:
  "Some (1::int) \<noteq> Some 0
   \<and> transactionError
        (data (connected\<lparr>data := (data connected)\<lparr>transactionError := JObject rpc_error\<rparr>\<rparr>))
       = JObject rpc_error
   \<and> transactionError (data (transferTokens other_account 5 (Inr ''0x5e'') (Inr (Some 1)) (Inr 95)
        (connected\<lparr>data := (data connected)\<lparr>transactionError := JObject rpc_error\<rparr>\<rparr>)))
       = JUndefined
   \<and> txBeingSent (data (transferTokens other_account 5 (Inr ''0x5e'') (Inr (Some 1)) (Inr 95)
        connected)) = None"
proof -
  have mined: "Some (1::int) \<noteq> Some 0" by simp
  note run = transferTokens_clears_pending [OF mined,
      of other_account 5 "Inr ''0x5e''" "Inr (Some 1)" "Inr 95" connected
         "JObject rpc_error" "''0x5e''" 95]
  have stale: "transactionError
        (data (connected\<lparr>data := (data connected)\<lparr>transactionError := JObject rpc_error\<rparr>\<rparr>))
       = JObject rpc_error"
    by simp
  have pending: "txBeingSent (data (transferTokens other_account 5 (Inr ''0x5e'') (Inr (Some 1))
        (Inr 95) connected)) = None"
    using run by blast
  have unset: "transactionError (data (transferTokens other_account 5 (Inr ''0x5e'')
        (Inr (Some 1)) (Inr 95)
        (connected\<lparr>data := (data connected)\<lparr>transactionError := JObject rpc_error\<rparr>\<rparr>)))
       = JUndefined"
    using run by blast
  from mined stale pending unset show ?thesis by blast
qed

text \<open>
  C2. When the error that ends \<^verbatim>\<open>transferTokens\<close> carries the code 4001, at
  whichever await it is thrown, \<^verbatim>\<open>transactionError\<close> is unset and
  \<^verbatim>\<open>txBeingSent\<close> is cleared afterwards, and nothing else of the data changes.
  No other error is absorbed: for an arbitrary error \<open>e\<close> thrown at any of the three
  awaits, \<^verbatim>\<open>transactionError\<close> is unset afterwards exactly when the code of
  \<open>e\<close> is 4001, and after a receipt with status 0 it is set.
\<close>

theorem transferTokens_user_rejection_silent:
  assumes rejected: "js_get error ''code'' = JNumber ERROR_CODE_TX_REJECTED_BY_USER"
    and mined: "status \<noteq> Some 0"
  shows
   "data (transferTokens to amount (Inl error) r_wait r_balance s)
      = (data s)\<lparr>txBeingSent := None, transactionError := JUndefined\<rparr>
    \<and> data (transferTokens to amount (Inr h) (Inl error) r_balance s)
      = (data s)\<lparr>txBeingSent := None, transactionError := JUndefined\<rparr>
    \<and> data (transferTokens to amount (Inr h) (Inr status) (Inl error) s)
      = (data s)\<lparr>txBeingSent := None, transactionError := JUndefined\<rparr>
    \<and> ((transactionError (data (transferTokens to amount (Inl e) r_wait r_balance s))
          = JUndefined)
        = (js_get e ''code'' = JNumber ERROR_CODE_TX_REJECTED_BY_USER))
    \<and> ((transactionError (data (transferTokens to amount (Inr h) (Inl e) r_balance s))
          = JUndefined)
        = (js_get e ''code'' = JNumber ERROR_CODE_TX_REJECTED_BY_USER))
    \<and> ((transactionError (data (transferTokens to amount (Inr h) (Inr status) (Inl e) s))
          = JUndefined)
        = (js_get e ''code'' = JNumber ERROR_CODE_TX_REJECTED_BY_USER))
    \<and> transactionError (data (transferTokens to amount (Inr h) (Inr (Some 0)) r_balance s))
        \<noteq> JUndefined"
  using rejected mined by (simp add: method_defs Let_def Error_def js_get_def)

theorem transferTokens_user_rejection_silent_witness:
  "js_get user_rejected_error ''code'' = JNumber ERROR_CODE_TX_REJECTED_BY_USER
   \<and> transactionError (data (transferTokens other_account 5 (Inl user_rejected_error)
        (Inr (Some 1)) (Inr 95) connected)) = JUndefined
   \<and> txBeingSent (data (transferTokens other_account 5 (Inl user_rejected_error)
        (Inr (Some 1)) (Inr 95) connected)) = None
   \<and> transactionError (data (transferTokens other_account 5 (Inl rpc_error)
        (Inr (Some 1)) (Inr 95) connected)) = JObject rpc_error"
proof -
  have code: "js_get user_rejected_error ''code'' = JNumber ERROR_CODE_TX_REJECTED_BY_USER"
    by (simp add: example_defs user_rejected_error_def)
  have mined: "Some (1::int) \<noteq> Some 0" by simp
  have other: "js_get rpc_error ''code'' \<noteq> JNumber ERROR_CODE_TX_REJECTED_BY_USER"
    by (simp add: example_defs rpc_error_def)
  note run = transferTokens_user_rejection_silent [OF code mined,
      of other_account 5 "Inr (Some 1)" "Inr 95" connected "''0xabc''" rpc_error]
  have stored: "transactionError (data (transferTokens other_account 5 (Inl rpc_error)
        (Inr (Some 1)) (Inr 95) connected)) = JObject rpc_error"
    using other by (simp add: method_defs Let_def)
  show ?thesis using code run stored by simp
qed

text \<open>
  C3, as the claim states it, fails. With ethers version 5, which the component is
  written against, a receipt of status 0 never reaches the method's own test:
  \<^verbatim>\<open>tx.wait()\<close> rejects. The error it rejects with carries the failed receipt,
  and that error is what \<^verbatim>\<open>transactionError\<close> holds afterwards, not the error made
  from the text ``Transaction failed''; nor is that text the message read from it.
\<close>

theorem transferTokens_failed_receipt_counterexample:
  "member (js_get call_exception_error ''receipt'') ''status'' = Some (JNumber 0)
   \<and> transactionError (data (transferTokens other_account 5 (Inr ''0x5e'')
        (Inl call_exception_error) (Inr 95) connected)) = JObject call_exception_error
   \<and> transactionError (data (transferTokens other_account 5 (Inr ''0x5e'')
        (Inl call_exception_error) (Inr 95) connected))
       \<noteq> JObject (Error ''Transaction failed'')
   \<and> getRpcErrorMessage call_exception_error \<noteq> Some (JString ''Transaction failed'')"
  by (simp add: method_defs example_defs call_exception_error_def getRpcErrorMessage_def
      Let_def)

text \<open>
  C3, amended. When the confirmation of the submitted transfer signals failure, the
  method stores a failure in \<^verbatim>\<open>transactionError\<close>, clears \<^verbatim>\<open>txBeingSent\<close>,
  leaves the balance as it was, and has issued the transfer and the wait and no balance
  read. The failure stored is the error made from the text ``Transaction failed'' when
  \<^verbatim>\<open>tx.wait()\<close> resolves with a receipt of status 0 (that text is also what
  \<^verbatim>\<open>getRpcErrorMessage\<close> reads from it), and it is the error that
  \<^verbatim>\<open>tx.wait()\<close> rejected with when the failure arrives as a rejection, whose code
  is then not the user's rejection code.
\<close>

theorem transferTokens_failed_confirmation:
  assumes other: "js_get error ''code'' \<noteq> JNumber ERROR_CODE_TX_REJECTED_BY_USER"
  shows
   "transactionError (data (transferTokens to amount (Inr h) (Inr (Some 0)) r_balance s))
      = JObject (Error ''Transaction failed'')
    \<and> getRpcErrorMessage (Error ''Transaction failed'') = Some (JString ''Transaction failed'')
    \<and> txBeingSent (data (transferTokens to amount (Inr h) (Inr (Some 0)) r_balance s)) = None
    \<and> balance (data (transferTokens to amount (Inr h) (Inr (Some 0)) r_balance s))
        = balance (data s)
    \<and> calls (transferTokens to amount (Inr h) (Inr (Some 0)) r_balance s)
        = calls s @ [TransferCall to amount, WaitCall h]
    \<and> transactionError (data (transferTokens to amount (Inr h) (Inl error) r_balance s))
        = JObject error
    \<and> txBeingSent (data (transferTokens to amount (Inr h) (Inl error) r_balance s)) = None
    \<and> balance (data (transferTokens to amount (Inr h) (Inl error) r_balance s))
        = balance (data s)
    \<and> calls (transferTokens to amount (Inr h) (Inl error) r_balance s)
        = calls s @ [TransferCall to amount, WaitCall h]"
proof -
  have resolved:
    "transactionError (data (transferTokens to amount (Inr h) (Inr (Some 0)) r_balance s))
       = JObject (Error ''Transaction failed'')
     \<and> txBeingSent (data (transferTokens to amount (Inr h) (Inr (Some 0)) r_balance s)) = None
     \<and> balance (data (transferTokens to amount (Inr h) (Inr (Some 0)) r_balance s))
         = balance (data s)
     \<and> calls (transferTokens to amount (Inr h) (Inr (Some 0)) r_balance s)
         = calls s @ [TransferCall to amount, WaitCall h]"
    by (simp add: method_defs Let_def Error_def js_get_def ERROR_CODE_TX_REJECTED_BY_USER_def)
  have text_read:
    "getRpcErrorMessage (Error ''Transaction failed'') = Some (JString ''Transaction failed'')"
    by (simp add: getRpcErrorMessage_def Error_def js_get_def)
  have rejected:
    "transactionError (data (transferTokens to amount (Inr h) (Inl error) r_balance s))
       = JObject error
     \<and> txBeingSent (data (transferTokens to amount (Inr h) (Inl error) r_balance s)) = None
     \<and> balance (data (transferTokens to amount (Inr h) (Inl error) r_balance s))
         = balance (data s)
     \<and> calls (transferTokens to amount (Inr h) (Inl error) r_balance s)
         = calls s @ [TransferCall to amount, WaitCall h]"
    using other by (simp add: method_defs Let_def)
  from resolved text_read rejected show ?thesis by blast
qed

theorem transferTokens_failed_confirmation_witness:
  "js_get call_exception_error ''code'' \<noteq> JNumber ERROR_CODE_TX_REJECTED_BY_USER
   \<and> transactionError (data (transferTokens other_account 5 (Inr ''0x5e'')
        (Inl call_exception_error) (Inr 95) connected)) = JObject call_exception_error
   \<and> txBeingSent (data (transferTokens other_account 5 (Inr ''0x5e'')
        (Inl call_exception_error) (Inr 95) connected)) = None
   \<and> balance (data (transferTokens other_account 5 (Inr ''0x5e'')
        (Inl call_exception_error) (Inr 95) connected)) = Some 100
   \<and> transactionError (data (transferTokens other_account 5 (Inr ''0x5e'')
        (Inr (Some 0)) (Inr 95) connected)) = JObject (Error ''Transaction failed'')"
proof -
  have other: "js_get call_exception_error ''code'' \<noteq> JNumber ERROR_CODE_TX_REJECTED_BY_USER"
    by (simp add: call_exception_error_def js_get_def)
  note run = transferTokens_failed_confirmation [OF other,
      of other_account 5 "''0x5e''" "Inr 95" connected]
  have before: "balance (data connected) = Some 100"
    by (simp add: method_defs example_defs Let_def)
  from run have after: "balance (data (transferTokens other_account 5 (Inr ''0x5e'')
        (Inl call_exception_error) (Inr 95) connected)) = balance (data connected)"
    by blast
  from other run after before show ?thesis by simp
qed

text \<open>
  C4, as the claim states it, fails, in two ways. What \<^verbatim>\<open>transferTokens\<close> records
  is not the message that \<^verbatim>\<open>getRpcErrorMessage\<close> extracts: for the JSON-RPC error
  above the extracted message is the text in its data, and \<^verbatim>\<open>transactionError\<close>
  is the whole error object, whose own message is the generic one. And the extraction
  does not fall back to the generic message whenever the data has no message: for the
  wrapped error the data is there without a message, and what is extracted is
  \<^verbatim>\<open>undefined\<close>, not the error's message.
\<close>

theorem transferTokens_records_message_counterexample:
  "js_get rpc_error ''code'' \<noteq> JNumber ERROR_CODE_TX_REJECTED_BY_USER
   \<and> getRpcErrorMessage rpc_error = Some (JString ''Not enough tokens'')
   \<and> transactionError (data (transferTokens other_account 500 (Inl rpc_error)
        (Inr (Some 1)) (Inr 100) connected)) = JObject rpc_error
   \<and> Some (transactionError (data (transferTokens other_account 500 (Inl rpc_error)
        (Inr (Some 1)) (Inr 100) connected))) \<noteq> getRpcErrorMessage rpc_error
   \<and> member (transactionError (data (transferTokens other_account 500 (Inl rpc_error)
        (Inr (Some 1)) (Inr 100) connected))) ''message''
       = Some (JString ''Internal JSON-RPC error.'')
   \<and> js_get wrapped_error ''code'' \<noteq> JNumber ERROR_CODE_TX_REJECTED_BY_USER
   \<and> member (js_get wrapped_error ''data'') ''message'' = Some JUndefined
   \<and> js_get wrapped_error ''message'' = JString ''Internal JSON-RPC error.''
   \<and> getRpcErrorMessage wrapped_error = Some JUndefined
   \<and> getRpcErrorMessage wrapped_error \<noteq> Some (js_get wrapped_error ''message'')"
  by (simp add: method_defs example_defs rpc_error_def wrapped_error_def
      getRpcErrorMessage_def Let_def)

text \<open>
  C4, amended. For every error other than the user's rejection, at whichever await it is
  thrown, \<^verbatim>\<open>transferTokens\<close> records the caught error object itself, unchanged.
  \<^verbatim>\<open>getRpcErrorMessage\<close> applied to an error never throws. Whenever the error's
  data is present (truthy) it yields the message of that data: the data's own message
  property when the data is an object, \<^verbatim>\<open>undefined\<close> if the object has none, and
  \<^verbatim>\<open>undefined\<close> when the data is not an object. It yields the error's own message
  only when the data is absent or otherwise falsy.
\<close>

theorem transferTokens_records_error_object:
  assumes other: "js_get error ''code'' \<noteq> JNumber ERROR_CODE_TX_REJECTED_BY_USER"
    and mined: "status \<noteq> Some 0"
  shows
   "transactionError (data (transferTokens to amount (Inl error) r_wait r_balance s))
      = JObject error
    \<and> transactionError (data (transferTokens to amount (Inr h) (Inl error) r_balance s))
      = JObject error
    \<and> transactionError (data (transferTokens to amount (Inr h) (Inr status) (Inl error) s))
      = JObject error
    \<and> getRpcErrorMessage error \<noteq> None
    \<and> (\<forall>d. js_get error ''data'' = JObject d
          \<longrightarrow> getRpcErrorMessage error = Some (js_get d ''message''))
    \<and> (\<forall>d. js_get error ''data'' = JObject d \<and> map_of d ''message'' = None
          \<longrightarrow> getRpcErrorMessage error = Some JUndefined)
    \<and> (truthy (js_get error ''data'') \<and> (\<forall>d. js_get error ''data'' \<noteq> JObject d)
          \<longrightarrow> getRpcErrorMessage error = Some JUndefined)
    \<and> (\<not> truthy (js_get error ''data'')
          \<longrightarrow> getRpcErrorMessage error = Some (js_get error ''message''))"
proof -
  have stored:
    "transactionError (data (transferTokens to amount (Inl error) r_wait r_balance s))
       = JObject error
     \<and> transactionError (data (transferTokens to amount (Inr h) (Inl error) r_balance s))
       = JObject error
     \<and> transactionError (data (transferTokens to amount (Inr h) (Inr status) (Inl error) s))
       = JObject error"
    using other mined by (simp add: method_defs Let_def)
  have total: "getRpcErrorMessage error \<noteq> None"
    by (cases "js_get error ''data''") (simp_all add: getRpcErrorMessage_def)
  have object:
    "\<forall>d. js_get error ''data'' = JObject d
        \<longrightarrow> getRpcErrorMessage error = Some (js_get d ''message'')"
    by (simp add: getRpcErrorMessage_def)
  have no_message:
    "\<forall>d. js_get error ''data'' = JObject d \<and> map_of d ''message'' = None
        \<longrightarrow> getRpcErrorMessage error = Some JUndefined"
    by (simp add: getRpcErrorMessage_def js_get_def)
  have primitive:
    "truthy (js_get error ''data'') \<and> (\<forall>d. js_get error ''data'' \<noteq> JObject d)
        \<longrightarrow> getRpcErrorMessage error = Some JUndefined"
    by (cases "js_get error ''data''") (simp_all add: getRpcErrorMessage_def)
  have fallback:
    "\<not> truthy (js_get error ''data'')
        \<longrightarrow> getRpcErrorMessage error = Some (js_get error ''message'')"
    by (simp add: getRpcErrorMessage_def)
  from stored total object no_message primitive fallback show ?thesis by blast
qed

theorem transferTokens_records_error_object_witness:
  "js_get rpc_error ''code'' \<noteq> JNumber ERROR_CODE_TX_REJECTED_BY_USER
   \<and> transactionError (data (transferTokens other_account 500 (Inr ''0x5e'') (Inl rpc_error)
        (Inr 100) connected)) = JObject rpc_error
   \<and> getRpcErrorMessage rpc_error = Some (JString ''Not enough tokens'')
   \<and> \<not> truthy (js_get ethers_error ''data'')
   \<and> transactionError (data (transferTokens other_account 500 (Inl ethers_error)
        (Inr (Some 1)) (Inr 100) connected)) = JObject ethers_error
   \<and> getRpcErrorMessage ethers_error = Some (JString ''cannot estimate gas'')
   \<and> getRpcErrorMessage wrapped_error = Some JUndefined"
proof -
  have mined: "Some (1::int) \<noteq> Some 0" by simp
  have code1: "js_get rpc_error ''code'' \<noteq> JNumber ERROR_CODE_TX_REJECTED_BY_USER"
    by (simp add: example_defs rpc_error_def)
  have data1: "js_get rpc_error ''data''
      = JObject [(''code'', JNumber 3), (''message'', JString ''Not enough tokens'')]"
    by (simp add: example_defs rpc_error_def)
  have code2: "js_get ethers_error ''code'' \<noteq> JNumber ERROR_CODE_TX_REJECTED_BY_USER"
    by (simp add: example_defs ethers_error_def)
  have data2: "\<not> truthy (js_get ethers_error ''data'')"
    by (simp add: example_defs ethers_error_def)
  have code3: "js_get wrapped_error ''code'' \<noteq> JNumber ERROR_CODE_TX_REJECTED_BY_USER"
    by (simp add: example_defs wrapped_error_def)
  have data3: "js_get wrapped_error ''data''
        = JObject [(''originalError'', JObject
            [(''code'', JNumber 3), (''message'', JString ''execution reverted'')])]
      \<and> map_of [(''originalError'', JObject
            [(''code'', JNumber 3), (''message'', JString ''execution reverted'')])]
          ''message'' = None"
    by (simp add: example_defs wrapped_error_def)
  note r1 = transferTokens_records_error_object [OF code1 mined,
      of other_account 500 "Inr (Some 1)" "Inr 100" connected "''0x5e''"]
  note r2 = transferTokens_records_error_object [OF code2 mined,
      of other_account 500 "Inr (Some 1)" "Inr 100" connected "''0x5e''"]
  note r3 = transferTokens_records_error_object [OF code3 mined,
      of other_account 500 "Inr (Some 1)" "Inr 100" connected "''0x5e''"]
  have m1: "getRpcErrorMessage rpc_error = Some (JString ''Not enough tokens'')"
    using r1 data1 by (simp add: js_get_def)
  have m2: "getRpcErrorMessage ethers_error = Some (JString ''cannot estimate gas'')"
    using r2 data2 by (simp add: js_get_def ethers_error_def)
  have m3: "getRpcErrorMessage wrapped_error = Some JUndefined"
    using r3 data3 by blast
  show ?thesis using code1 data2 r1 r2 m1 m2 m3 by simp
qed

subsection \<open>Connecting\<close>

text \<open>
  C5. When \<^verbatim>\<open>connectWallet\<close> runs while the wallet's network is not the expected
  one, and no address is selected yet, the method ends normally with the network error
  stored and nothing else of the data changed: the selected address is still unset.
  No timer has been installed, \<^verbatim>\<open>pollDataInterval\<close> is as before, no listener has
  been registered, and the only call issued is the request for the accounts, so neither
  the token data nor the balance has been asked for.
\<close>

theorem connectWallet_wrong_network:
  assumes mismatch: "networkVersion s \<noteq> Some HARDHAT_NETWORK_ID"
    and empty: "selectedAddress (data s) = None"
  shows
   "fst (connectWallet (Inr accounts) s) = Fulfilled
    \<and> networkError (data (snd (connectWallet (Inr accounts) s)))
        = Some ''Please connect Metamask to Localhost:8545''
    \<and> selectedAddress (data (snd (connectWallet (Inr accounts) s))) = None
    \<and> data (snd (connectWallet (Inr accounts) s))
        = (data s)\<lparr>networkError := Some ''Please connect Metamask to Localhost:8545''\<rparr>
    \<and> timers (snd (connectWallet (Inr accounts) s)) = timers s
    \<and> next_timer (snd (connectWallet (Inr accounts) s)) = next_timer s
    \<and> pollDataInterval (snd (connectWallet (Inr accounts) s)) = pollDataInterval s
    \<and> listeners (snd (connectWallet (Inr accounts) s)) = listeners s
    \<and> calls (snd (connectWallet (Inr accounts) s)) = calls s @ [EnableCall]"
  using mismatch empty
  by (simp add: connectWallet_def connectWallet_issue_def connectWallet_resolved_def
      checkNetwork_def issue_def Let_def)

theorem connectWallet_wrong_network_witness:
  "networkVersion (fresh (Some ''1'')) \<noteq> Some HARDHAT_NETWORK_ID
   \<and> selectedAddress (data (fresh (Some ''1''))) = None
   \<and> networkError (data wrong_network) = Some ''Please connect Metamask to Localhost:8545''
   \<and> selectedAddress (data wrong_network) = None
   \<and> timers wrong_network = []
   \<and> pollDataInterval wrong_network = None
   \<and> listeners wrong_network = []
   \<and> calls wrong_network = [EnableCall]"
proof -
  have mismatch: "networkVersion (fresh (Some ''1'')) \<noteq> Some HARDHAT_NETWORK_ID"
    by (simp add: fresh_def HARDHAT_NETWORK_ID_def)
  have empty: "selectedAddress (data (fresh (Some ''1''))) = None"
    by (simp add: fresh_def initialData_def)
  note run = connectWallet_wrong_network [OF mismatch empty, of "[hardhat_account]"]
  have start: "timers (fresh (Some ''1'')) = [] \<and> pollDataInterval (fresh (Some ''1'')) = None
      \<and> listeners (fresh (Some ''1'')) = [] \<and> calls (fresh (Some ''1'')) = []"
    by (simp add: fresh_def)
  show ?thesis using mismatch empty run start by (simp add: wrong_network_def)
qed

text \<open>
  C6, as the claim states it, fails. The first attempt, on network 1, stores the
  network error. The user switches the wallet to the expected network and connects again:
  the attempt succeeds (the address is selected) and the network error is still stored.
\<close>

theorem networkError_cleared_on_retry_counterexample:
  "networkError (data wrong_network) = Some ''Please connect Metamask to Localhost:8545''
   \<and> networkVersion (wrong_network\<lparr>networkVersion := Some HARDHAT_NETWORK_ID\<rparr>)
       = Some HARDHAT_NETWORK_ID
   \<and> selectedAddress (data retried) = Some hardhat_account
   \<and> networkError (data retried) = Some ''Please connect Metamask to Localhost:8545''
   \<and> networkError (data retried) \<noteq> None"
  by (simp add: method_defs example_defs wrong_network_def retried_def Let_def)

text \<open>
  C6, amended. A \<^verbatim>\<open>connectWallet\<close> on which the network matches leaves
  \<^verbatim>\<open>networkError\<close> as it was, however the request for the accounts settles. What
  clears it is \<^verbatim>\<open>dismissNetworkError\<close>, and \<^verbatim>\<open>resetState\<close> (so also both
  wallet event handlers).
\<close>

theorem networkError_cleared_by_dismiss_or_reset:
  assumes match: "networkVersion s = Some HARDHAT_NETWORK_ID"
  shows
   "networkError (data (snd (connectWallet r_enable s))) = networkError (data s)
    \<and> networkError (data (dismissNetworkError s)) = None
    \<and> networkError (data (resetState s)) = None
    \<and> networkError (data (accountsChanged_handler [] s)) = None
    \<and> networkError (data (networkChanged_handler s)) = None"
  using match
  by (simp add: method_defs dismissNetworkError_def initialData_def Let_def split: sum.splits)

theorem networkError_cleared_by_dismiss_or_reset_witness:
  "networkVersion (wrong_network\<lparr>networkVersion := Some HARDHAT_NETWORK_ID\<rparr>)
     = Some HARDHAT_NETWORK_ID
   \<and> networkError (data retried) = networkError (data wrong_network)
   \<and> networkError (data (dismissNetworkError
        (wrong_network\<lparr>networkVersion := Some HARDHAT_NETWORK_ID\<rparr>))) = None"
proof -
  have match: "networkVersion (wrong_network\<lparr>networkVersion := Some HARDHAT_NETWORK_ID\<rparr>)
      = Some HARDHAT_NETWORK_ID"
    by simp
  note run = networkError_cleared_by_dismiss_or_reset [OF match, of "Inr [hardhat_account]"]
  show ?thesis using match run by (simp add: retried_def)
qed

subsection \<open>Polling\<close>




subsection \<open>Wallet events\<close>

text \<open>
  C8, as the claim states it, fails. After the two answered connects above, two timers
  are active and \<^verbatim>\<open>pollDataInterval\<close> remembers the second. Either handler then
  clears only that one: the first timer keeps polling. After the reset its next tick
  issues a balance read for no address, and when that read resolves the balance is set
  again, so the fields do not stay empty; after a re-initialization two timers are
  active.
\<close>

theorem wallet_event_handlers_counterexample:
  "timers second_answer = [(0, 1000), (1, 1000)]
   \<and> pollDataInterval second_answer = Some 1
   \<and> timers (accountsChanged_handler [] second_answer) = [(0, 1000)]
   \<and> timers (networkChanged_handler second_answer) = [(0, 1000)]
   \<and> timers (accountsChanged_handler [other_account] second_answer) = [(0, 1000), (2, 1000)]
   \<and> calls (interval_elapsed 0 (accountsChanged_handler [] second_answer))
       = calls second_answer @ [BalanceOfCall None]
   \<and> balance (data (updateBalance_resolved 0
        (interval_elapsed 0 (accountsChanged_handler [] second_answer)))) = Some 0
   \<and> data (updateBalance_resolved 0
        (interval_elapsed 0 (accountsChanged_handler [] second_answer))) \<noteq> initialData"
  by (simp add: method_defs example_defs interval_elapsed_def Let_def
      first_click_def second_click_def first_answer_def second_answer_def)

text \<open>
  C8, amended. When an accounts-changed or network-changed event fires while no timer is
  active other than the one \<^verbatim>\<open>pollDataInterval\<close> remembers, the handler first halts
  polling: it runs \<^verbatim>\<open>stopPollingData\<close> before anything else, after which no timer is
  active, no handle is remembered and no tick can issue a read. With a new address the
  accounts-changed handler then initializes again: the address is selected, the token's
  name is asked for, the symbol is asked for when the name has arrived, and when the
  symbol has arrived the token data is stored, nothing else of the data having changed;
  exactly one timer, a new one, is active, and a balance read for the new address has
  been issued. With no address, and on a network change, the handler resets the data:
  all six fields are as \<^verbatim>\<open>initialData()\<close> gives them, no handle is remembered, no
  timer is active and no tick can issue a read.
\<close>

theorem wallet_event_handlers:
  assumes only_remembered: "\<forall>i \<in> fst ` set (timers s). pollDataInterval s = Some i"
  shows
   "accountsChanged_handler (a # rest) s = initialize (Some a) (stopPollingData s)
    \<and> accountsChanged_handler [] s = resetState (stopPollingData s)
    \<and> networkChanged_handler s = resetState (stopPollingData s)
    \<and> timers (stopPollingData s) = []
    \<and> pollDataInterval (stopPollingData s) = None
    \<and> interval_elapsed h (stopPollingData s) = stopPollingData s
    \<and> selectedAddress (data (accountsChanged_handler (a # rest) s)) = Some a
    \<and> calls (accountsChanged_handler (a # rest) s)
        = calls s @ [NameCall, BalanceOfCall (Some a)]
    \<and> calls (getTokenData_name_resolved (accountsChanged_handler (a # rest) s))
        = calls s @ [NameCall, BalanceOfCall (Some a), SymbolCall]
    \<and> data (getTokenData_name_resolved (accountsChanged_handler (a # rest) s))
        = (data s)\<lparr>selectedAddress := Some a\<rparr>
    \<and> data (getTokenData_symbol_resolved n sy
         (getTokenData_name_resolved (accountsChanged_handler (a # rest) s)))
        = (data s)\<lparr>selectedAddress := Some a, tokenData := Some \<lparr>name = n, symbol = sy\<rparr>\<rparr>
    \<and> timers (accountsChanged_handler (a # rest) s) = [(next_timer s, 1000)]
    \<and> pollDataInterval (accountsChanged_handler (a # rest) s) = Some (next_timer s)
    \<and> data (accountsChanged_handler [] s) = initialData
    \<and> data (networkChanged_handler s) = initialData
    \<and> initialData
        = \<lparr> tokenData = None, selectedAddress = None, balance = None,
            txBeingSent = None, transactionError = JUndefined, networkError = None \<rparr>
    \<and> pollDataInterval (accountsChanged_handler [] s) = None
    \<and> pollDataInterval (networkChanged_handler s) = None
    \<and> timers (accountsChanged_handler [] s) = []
    \<and> timers (networkChanged_handler s) = []
    \<and> interval_elapsed h (accountsChanged_handler [] s) = accountsChanged_handler [] s
    \<and> interval_elapsed h (networkChanged_handler s) = networkChanged_handler s"
proof -
  have cleared: "filter (\<lambda>(i, ms). i \<noteq> t) (timers s) = []" if "pollDataInterval s = Some t" for t
  proof -
    have "\<forall>x \<in> set (timers s). \<not> (case x of (i, ms) \<Rightarrow> i \<noteq> t)"
      using only_remembered that by force
    then show ?thesis by (simp add: filter_empty_conv)
  qed
  have idle: "timers s = []" if "pollDataInterval s = None"
  proof (cases "timers s")
    case Nil
    then show ?thesis by simp
  next
    case (Cons x xs)
    then have "fst x \<in> fst ` set (timers s)" by simp
    with only_remembered that show ?thesis by simp
  qed
  have stop:
    "timers (stopPollingData s) = []
     \<and> pollDataInterval (stopPollingData s) = None
     \<and> next_timer (stopPollingData s) = next_timer s
     \<and> calls (stopPollingData s) = calls s
     \<and> data (stopPollingData s) = data s"
    by (cases "pollDataInterval s")
       (simp_all add: stopPollingData_def clearInterval_def Let_def cleared idle)
  have order:
    "accountsChanged_handler (a # rest) s = initialize (Some a) (stopPollingData s)
     \<and> accountsChanged_handler [] s = resetState (stopPollingData s)
     \<and> networkChanged_handler s = resetState (stopPollingData s)"
    by (simp add: accountsChanged_handler_def networkChanged_handler_def Let_def)
  have init:
    "selectedAddress (data (initialize (Some a) x)) = Some a
     \<and> calls (initialize (Some a) x) = calls x @ [NameCall, BalanceOfCall (Some a)]
     \<and> calls (getTokenData_name_resolved (initialize (Some a) x))
         = calls x @ [NameCall, BalanceOfCall (Some a), SymbolCall]
     \<and> data (getTokenData_name_resolved (initialize (Some a) x))
         = (data x)\<lparr>selectedAddress := Some a\<rparr>
     \<and> data (getTokenData_symbol_resolved n sy
          (getTokenData_name_resolved (initialize (Some a) x)))
         = (data x)\<lparr>selectedAddress := Some a, tokenData := Some \<lparr>name = n, symbol = sy\<rparr>\<rparr>
     \<and> timers (initialize (Some a) x) = timers x @ [(next_timer x, 1000)]
     \<and> pollDataInterval (initialize (Some a) x) = Some (next_timer x)" for x
    by (simp add: initialize_def intializeEthers_def getTokenData_issue_def
        getTokenData_name_resolved_def getTokenData_symbol_resolved_def
        startPollingData_def setInterval_def updateBalance_issue_def issue_def Let_def)
  have reset:
    "data (resetState x) = initialData \<and> pollDataInterval (resetState x) = pollDataInterval x
     \<and> timers (resetState x) = timers x" for x
    by (simp add: resetState_def)
  have quiet: "interval_elapsed h x = x" if "timers x = []" for x
    using that by (simp add: interval_elapsed_def)
  have q1: "interval_elapsed h (stopPollingData s) = stopPollingData s"
    using stop by (simp add: quiet)
  have q2: "interval_elapsed h (resetState (stopPollingData s)) = resetState (stopPollingData s)"
    using stop reset [of "stopPollingData s"] by (simp add: quiet)
  show ?thesis
    using stop init [of "stopPollingData s"] reset [of "stopPollingData s"] q1 q2
    by (simp add: order initialData_def)
qed

theorem wallet_event_handlers_witness:
  "pollDataInterval connected = Some 0
   \<and> timers connected = [(0, 1000)]
   \<and> timers (accountsChanged_handler [] connected) = []
   \<and> timers (networkChanged_handler connected) = []
   \<and> timers (accountsChanged_handler [other_account] connected) = [(1, 1000)]
   \<and> selectedAddress (data (accountsChanged_handler [other_account] connected))
       = Some other_account
   \<and> data (accountsChanged_handler [] connected) = initialData"
proof -
  have active: "timers connected = [(0, 1000)]"
    by (simp add: method_defs example_defs Let_def)
  have remembered: "pollDataInterval connected = Some 0"
    by (simp add: method_defs example_defs Let_def)
  have only_remembered:
    "\<forall>i \<in> fst ` set (timers connected). pollDataInterval connected = Some i"
    using active remembered by simp
  have fresh_handle: "next_timer connected = 1"
    by (simp add: method_defs example_defs Let_def)
  note run = wallet_event_handlers [OF only_remembered,
      of other_account "[]" 0 "''My Hardhat Token''" "''MHT''", unfolded fresh_handle]
  show ?thesis using remembered active run by blast
qed

subsection \<open>Resetting\<close>

text \<open>
  C9. \<^verbatim>\<open>resetState\<close> replaces the data as a whole by \<^verbatim>\<open>initialData()\<close>:
  in the state it returns the token data, the balance, the pending transaction and the
  selected address are all unset together, whatever they were before, and so the
  invariant of the data model holds there.
\<close>

theorem resetState_atomic:
  "data (resetState s) = initialData
   \<and> tokenData (data (resetState s)) = None
   \<and> balance (data (resetState s)) = None
   \<and> txBeingSent (data (resetState s)) = None
   \<and> selectedAddress (data (resetState s)) = None
   \<and> session_invariant (data (resetState s))"
  by (simp add: resetState_def initialData_def session_invariant_def)

theorem resetState_atomic_witness:
  "selectedAddress (data (resetState (issue (WaitCall ''0x5e'')
       (connected\<lparr>data := (data connected)\<lparr>txBeingSent := Some ''0x5e''\<rparr>\<rparr>)))) = None
   \<and> tokenData (data (resetState (issue (WaitCall ''0x5e'')
       (connected\<lparr>data := (data connected)\<lparr>txBeingSent := Some ''0x5e''\<rparr>\<rparr>)))) = None
   \<and> balance (data (resetState (issue (WaitCall ''0x5e'')
       (connected\<lparr>data := (data connected)\<lparr>txBeingSent := Some ''0x5e''\<rparr>\<rparr>)))) = None
   \<and> txBeingSent (data (resetState (issue (WaitCall ''0x5e'')
       (connected\<lparr>data := (data connected)\<lparr>txBeingSent := Some ''0x5e''\<rparr>\<rparr>)))) = None"
  using resetState_atomic [of "issue (WaitCall ''0x5e'')
       (connected\<lparr>data := (data connected)\<lparr>txBeingSent := Some ''0x5e''\<rparr>\<rparr>)"]
  by (simp add: initialData_def)

subsection \<open>The two balance tests\<close>

text \<open>
  C10. For a balance that is not negative, \<^verbatim>\<open>balanceZero\<close> and
  \<^verbatim>\<open>balanceGreaterZero\<close> both return, the second returns the negation of the
  first, and so exactly one of them returns true. On the screen of a loaded component
  exactly one of the no-tokens message and the transfer form is therefore shown.
\<close>

theorem balance_zero_xor_greater:
  assumes loaded: "balance (data s) = Some b"
    and nonneg: "0 \<le> b"
  shows
   "balanceZero s = Some (b = 0)
    \<and> balanceGreaterZero s = Some (b \<noteq> 0)
    \<and> balanceGreaterZero s = map_option Not (balanceZero s)
    \<and> ((balanceZero s = Some True) \<noteq> (balanceGreaterZero s = Some True))
    \<and> (\<forall>v. render s = Loaded v \<longrightarrow> NoTokensMessage v \<noteq> Transfer v)"
  using loaded nonneg
  by (auto simp add: balanceZero_def balanceGreaterZero_def render_def split: if_splits)

theorem balance_zero_xor_greater_witness:
  "balance (data connected) = Some 100
   \<and> balanceZero connected = Some False
   \<and> balanceGreaterZero connected = Some True
   \<and> render connected
       = Loaded \<lparr> WaitingForTransactionMessage = False, TransactionErrorMessage = False,
                  NoTokensMessage = False, Transfer = True \<rparr>"
proof -
  have loaded: "balance (data connected) = Some 100"
    by (simp add: method_defs example_defs Let_def)
  have nonneg: "(0::int) \<le> 100" by simp
  note run = balance_zero_xor_greater [OF loaded nonneg]
  have shown: "render connected
       = Loaded \<lparr> WaitingForTransactionMessage = False, TransactionErrorMessage = False,
                  NoTokensMessage = False, Transfer = True \<rparr>"
    by (simp add: render_def balanceZero_def balanceGreaterZero_def method_defs example_defs
        Let_def)
  show ?thesis using loaded run shown by simp
qed

end
